theory Spec2Isabelle
  imports Main "HOL-Library.Word"
begin

unbundle bit_operations_syntax

section \<open>CORTEX node firmware: the data model\<close>

text \<open>
  The firmware runs on an Arduino Nano 33 BLE (32-bit ARM, little-endian): \<open>uint8_t\<close>,
  \<open>uint16_t\<close>, \<open>uint32_t\<close>, \<open>int\<close> and \<open>unsigned long\<close> are words of 8, 16, 32, 32
  and 32 bits, and a \<open>float\<close> is an IEEE-754 binary32 value, kept here as its 32-bit
  pattern, which is what the packed struct holds in memory.
\<close>

type_synonym uint8_t = "8 word"
type_synonym uint16_t = "16 word"
type_synonym uint32_t = "32 word"
type_synonym int32_t = "32 word"
type_synonym float32 = "32 word"

subsection \<open>IEEE-754 binary32 values\<close>

text \<open>The macro \<open>NAN\<close> of \<open>math.h\<close>: the quiet NaN with an empty payload.\<close>

definition NAN :: float32 where
  "NAN = 0x7FC00000"

definition float_sign :: "float32 \<Rightarrow> bool" where
  "float_sign x = bit x 31"

definition float_exponent :: "float32 \<Rightarrow> nat" where
  "float_exponent x = unat (take_bit 8 (drop_bit 23 x))"

definition float_fraction :: "float32 \<Rightarrow> nat" where
  "float_fraction x = unat (take_bit 23 x)"

definition isnan :: "float32 \<Rightarrow> bool" where
  "isnan x \<longleftrightarrow> float_exponent x = 255 \<and> float_fraction x \<noteq> 0"

definition isinf :: "float32 \<Rightarrow> bool" where
  "isinf x \<longleftrightarrow> float_exponent x = 255 \<and> float_fraction x = 0"

definition iszero :: "float32 \<Rightarrow> bool" where
  "iszero x \<longleftrightarrow> float_exponent x = 0 \<and> float_fraction x = 0"

text \<open>
  A finite value is \<open>\<plusminus> float_mant x * 2 ^ float_expo x\<close>: the significand with its hidden
  bit as a natural number, and the exponent of its last place.
\<close>

definition float_mant :: "float32 \<Rightarrow> nat" where
  "float_mant x = (if float_exponent x = 0 then float_fraction x else 2 ^ 23 + float_fraction x)"

definition float_expo :: "float32 \<Rightarrow> int" where
  "float_expo x = (if float_exponent x = 0 then - 149 else int (float_exponent x) - 150)"

definition float_signbit :: "bool \<Rightarrow> float32" where
  "float_signbit neg = (if neg then 0x80000000 else 0)"

definition float_infinity :: "bool \<Rightarrow> float32" where
  "float_infinity neg = float_signbit neg + 0x7F800000"

fun bit_length :: "nat \<Rightarrow> nat" where
  "bit_length n = (if n = 0 then 0 else Suc (bit_length (n div 2)))"

declare bit_length.simps [simp del]

text \<open>
  Rounding \<open>\<plusminus> a * 2 ^ e\<close> to binary32, to nearest with ties to even (the mode the
  firmware never changes). \<open>float_quantum\<close> is the exponent of the last place of the
  result, \<open>round_shift a d\<close> is \<open>a / d\<close> rounded, and \<open>float_pack\<close> lays the exponent
  field and the significand out; a carry out of the significand moves into the exponent
  field, and a result beyond the largest finite value is an infinity.
\<close>

definition float_quantum :: "nat \<Rightarrow> int \<Rightarrow> int" where
  "float_quantum a e = max (int (bit_length a) + e - 24) (- 149)"

definition round_shift :: "nat \<Rightarrow> nat \<Rightarrow> nat" where
  "round_shift a d =
     (if d < 2 * (a mod d) \<or> (2 * (a mod d) = d \<and> odd (a div d)) then a div d + 1 else a div d)"

definition float_significand :: "nat \<Rightarrow> int \<Rightarrow> int \<Rightarrow> nat" where
  "float_significand a e q =
     (if q \<le> e then a * 2 ^ nat (e - q) else round_shift a (2 ^ nat (q - e)))"

definition float_pack :: "bool \<Rightarrow> int \<Rightarrow> nat \<Rightarrow> float32" where
  "float_pack neg q sig =
     (if 0x7F800000 \<le> nat (q + 149) * 2 ^ 23 + sig then float_infinity neg
      else float_signbit neg + of_nat (nat (q + 149) * 2 ^ 23 + sig))"

definition float_round :: "bool \<Rightarrow> nat \<Rightarrow> int \<Rightarrow> float32" where
  "float_round neg a e =
     (if a = 0 then float_signbit neg
      else float_pack neg (float_quantum a e) (float_significand a e (float_quantum a e)))"

text \<open>Multiplication of two \<open>float\<close>s (\<open>ax*ax\<close>).\<close>

definition fmul :: "float32 \<Rightarrow> float32 \<Rightarrow> float32" where
  "fmul x y =
     (if isnan x \<or> isnan y then NAN
      else if (isinf x \<and> iszero y) \<or> (iszero x \<and> isinf y) then NAN
      else if isinf x \<or> isinf y then float_infinity (float_sign x \<noteq> float_sign y)
      else float_round (float_sign x \<noteq> float_sign y)
             (float_mant x * float_mant y) (float_expo x + float_expo y))"

text \<open>Addition: the exact sum of the two values in units of \<open>2 ^ e\<close>, rounded once.\<close>

definition float_int :: "float32 \<Rightarrow> int \<Rightarrow> int" where
  "float_int x e =
     (if float_sign x then - 1 else 1) * int (float_mant x) * 2 ^ nat (float_expo x - e)"

definition float_of_sum :: "bool \<Rightarrow> int \<Rightarrow> int \<Rightarrow> float32" where
  "float_of_sum both_neg v e =
     (if v = 0 then float_signbit both_neg else float_round (v < 0) (nat \<bar>v\<bar>) e)"

definition fadd_finite :: "float32 \<Rightarrow> float32 \<Rightarrow> int \<Rightarrow> float32" where
  "fadd_finite x y e =
     float_of_sum (float_sign x \<and> float_sign y) (float_int x e + float_int y e) e"

definition fadd :: "float32 \<Rightarrow> float32 \<Rightarrow> float32" where
  "fadd x y =
     (if isnan x \<or> isnan y then NAN
      else if isinf x \<and> isinf y then (if float_sign x = float_sign y then x else NAN)
      else if isinf x then x
      else if isinf y then y
      else fadd_finite x y (min (float_expo x) (float_expo y)))"

text \<open>
  Square root: the integer square root of the significand scaled to at least 53 bits,
  with one more bit that says whether anything was left over, rounded once.
\<close>

fun isqrt_bits :: "nat \<Rightarrow> nat \<Rightarrow> nat \<Rightarrow> nat" where
  "isqrt_bits n 0 r = r"
| "isqrt_bits n (Suc k) r =
     isqrt_bits n k (if (r + 2 ^ k) * (r + 2 ^ k) \<le> n then r + 2 ^ k else r)"

definition isqrt :: "nat \<Rightarrow> nat" where
  "isqrt n = isqrt_bits n (bit_length n) 0"

definition with_sticky :: "nat \<Rightarrow> nat \<Rightarrow> nat" where
  "with_sticky r m = 2 * r + (if r * r = m then 0 else 1)"

definition fsqrt_scaled :: "nat \<Rightarrow> int \<Rightarrow> float32" where
  "fsqrt_scaled m e = float_round False (with_sticky (isqrt m) m) (e div 2 - 1)"

definition fsqrt :: "float32 \<Rightarrow> float32" where
  "fsqrt x =
     (if isnan x then NAN
      else if iszero x then x
      else if float_sign x then NAN
      else if isinf x then x
      else if even (float_expo x) then fsqrt_scaled (float_mant x * 2 ^ 52) (float_expo x - 52)
      else fsqrt_scaled (float_mant x * 2 ^ 53) (float_expo x - 53))"

text \<open>The conversion of an \<open>int\<close> to \<open>float\<close> (\<open>packet.lux = a\<close>).\<close>

definition float_of_int :: "int32_t \<Rightarrow> float32" where
  "float_of_int a = float_round (sint a < 0) (nat \<bar>sint a\<bar>) 0"

subsection \<open>The packet and the globals\<close>

text \<open>
  \<open>CortexPacket\<close> is the packed struct of the firmware, field by field; \<open>magic\<close> is a
  \<open>char[4]\<close>, an array of exactly four characters.
\<close>

type_synonym char4 = "char \<times> char \<times> char \<times> char"

record CortexPacket =
  magic :: char4
  node_id :: uint8_t
  reserved :: uint8_t
  seq :: uint16_t
  t_ms :: uint32_t
  temp_c :: float32
  rh_pct :: float32
  pressure_hpa :: float32
  lux :: float32
  accel_g :: float32
  sound_dbfs :: float32

text \<open>\<open>config.h\<close>: \<open>#define NODE_ID 1\<close>.\<close>

definition NODE_ID :: uint8_t where
  "NODE_ID = 1"

text \<open>
  The memory image of the packed struct on the little-endian target, which is what
  \<open>writeValue(&packet, sizeof(packet))\<close> copies.
\<close>

definition le16 :: "uint16_t \<Rightarrow> uint8_t list" where
  "le16 w = [ucast w, ucast (drop_bit 8 w)]"

definition le32 :: "uint32_t \<Rightarrow> uint8_t list" where
  "le32 w = [ucast w, ucast (drop_bit 8 w), ucast (drop_bit 16 w), ucast (drop_bit 24 w)]"

definition char4_bytes :: "char4 \<Rightarrow> uint8_t list" where
  "char4_bytes m = (case m of (a, b, c, d) \<Rightarrow> [of_char a, of_char b, of_char c, of_char d])"

definition wire_bytes :: "CortexPacket \<Rightarrow> uint8_t list" where
  "wire_bytes p =
     char4_bytes (magic p) @ [node_id p, reserved p] @ le16 (seq p) @ le32 (t_ms p)
     @ le32 (temp_c p) @ le32 (rh_pct p) @ le32 (pressure_hpa p)
     @ le32 (lux p) @ le32 (accel_g p) @ le32 (sound_dbfs p)"

text \<open>Reading the fields of a received record back, at the offsets of the protocol.\<close>

definition rd16 :: "uint8_t list \<Rightarrow> nat \<Rightarrow> uint16_t" where
  "rd16 bs i = ucast (bs ! i) OR push_bit 8 (ucast (bs ! (i + 1)))"

definition rec_magic :: "uint8_t list \<Rightarrow> uint8_t list" where
  "rec_magic bs = take 4 bs"

definition rec_node_id :: "uint8_t list \<Rightarrow> uint8_t" where
  "rec_node_id bs = bs ! 4"

definition rec_reserved :: "uint8_t list \<Rightarrow> uint8_t" where
  "rec_reserved bs = bs ! 5"

definition rec_seq :: "uint8_t list \<Rightarrow> uint16_t" where
  "rec_seq bs = rd16 bs 6"

text \<open>
  The globals of the sketch, with the part of the BLE stack the sketch observes: whether
  a central is attached (\<open>BLE.connected()\<close>), whether the device advertises, the value
  of the characteristic, and every value \<open>writeValue\<close> was handed, oldest first.
  Output on \<open>Serial\<close> is not modelled.
\<close>

record node =
  packet :: CortexPacket
  hts_ok :: bool
  baro_ok :: bool
  apds_ok :: bool
  lsm_ok :: bool
  lastSampleTime :: uint32_t
  lastNotifyTime :: uint32_t
  BLE_connected :: bool
  BLE_advertising :: bool
  cortexCharacteristic :: "uint8_t list"
  written :: "uint8_t list list"
  LED_BUILTIN :: bool

definition sampleInterval :: uint32_t where
  "sampleInterval = 100"

definition notifyInterval :: uint32_t where
  "notifyInterval = 200"

text \<open>
  The state before \<open>setup\<close> runs: globals without an initialiser are zero-initialised
  (\<open>CortexPacket packet;\<close>), the flags and the two timers have theirs.
\<close>

definition packet_zero :: CortexPacket where
  "packet_zero =
     \<lparr>magic = (CHR 0x00, CHR 0x00, CHR 0x00, CHR 0x00), node_id = 0, reserved = 0, seq = 0,
      t_ms = 0, temp_c = 0, rh_pct = 0, pressure_hpa = 0, lux = 0, accel_g = 0,
      sound_dbfs = 0\<rparr>"

definition power_on :: node where
  "power_on =
     \<lparr>packet = packet_zero, hts_ok = False, baro_ok = False, apds_ok = False, lsm_ok = False,
      lastSampleTime = 0, lastNotifyTime = 0, BLE_connected = False, BLE_advertising = False,
      cortexCharacteristic = [], written = [], LED_BUILTIN = False\<rparr>"

text \<open>The connection lifecycle, read off the stack's state.\<close>

datatype lifecycle = Idle | Advertising | Connected

definition lifecycle_of :: "node \<Rightarrow> lifecycle" where
  "lifecycle_of s =
     (if BLE_connected s then Connected else if BLE_advertising s then Advertising else Idle)"

section \<open>The operations of the sketch\<close>

subsection \<open>What the hardware answers\<close>

text \<open>
  The sensor libraries and the radio are outside the sketch. What they answer is an
  input: at boot whether each \<open>begin()\<close> succeeds, and on each pass of \<open>loop\<close> the two
  readings of \<open>millis()\<close>, the events \<open>BLE.poll()\<close> dispatches, and what each sensor
  would return if it were read.
\<close>

record boot_env =
  HTS_begin :: bool
  BARO_begin :: bool
  APDS_begin :: bool
  IMU_begin :: bool
  BLE_begin :: bool

record sensor_hw =
  HTS_readTemperature :: float32
  HTS_readHumidity :: float32
  BARO_readPressure :: float32
  APDS_colorAvailable :: bool
  APDS_readColor :: "int32_t \<times> int32_t \<times> int32_t \<times> int32_t"
  IMU_accelerationAvailable :: bool
  IMU_readAcceleration :: "float32 \<times> float32 \<times> float32"

datatype ble_event = BLEConnected | BLEDisconnected

record loop_env =
  millis_loop :: uint32_t
  poll_events :: "ble_event list"
  sensors :: sensor_hw
  millis_notify :: uint32_t

subsection \<open>The BLE stack as the sketch uses it\<close>

definition writeValue :: "node \<Rightarrow> node" where
  "writeValue s =
     s\<lparr>cortexCharacteristic := wire_bytes (packet s),
       written := written s @ [wire_bytes (packet s)]\<rparr>"

definition BLE_advertise :: "node \<Rightarrow> node" where
  "BLE_advertise s = s\<lparr>BLE_advertising := True\<rparr>"

subsection \<open>The functions of the sketch\<close>

definition setupSensors :: "boot_env \<Rightarrow> node \<Rightarrow> node" where
  "setupSensors be s =
     (let s1 = (if HTS_begin be then s\<lparr>hts_ok := True\<rparr> else s);
          s2 = (if BARO_begin be then s1\<lparr>baro_ok := True\<rparr> else s1);
          s3 = (if APDS_begin be then s2\<lparr>apds_ok := True\<rparr> else s2);
          s4 = (if IMU_begin be then s3\<lparr>lsm_ok := True\<rparr> else s3)
      in s4)"

text \<open>\<open>setup()\<close>, named \<open>setup_node\<close> here; it does not return when \<open>BLE.begin()\<close> fails (\<open>while (1);\<close>): \<open>None\<close>.\<close>

definition setup_node :: "boot_env \<Rightarrow> node \<Rightarrow> node option" where
  "setup_node be s =
     (let s1 = setupSensors be s;
          s2 = s1\<lparr>packet := (packet s1)\<lparr>magic := (CHR ''C'', CHR ''T'', CHR ''X'', CHR ''1''),
                                         node_id := NODE_ID, reserved := 0, seq := 0\<rparr>\<rparr>
      in if \<not> BLE_begin be then None
         else Some ((BLE_advertise (writeValue s2))\<lparr>LED_BUILTIN := True\<rparr>))"

definition readSensors :: "sensor_hw \<Rightarrow> node \<Rightarrow> node" where
  "readSensors hw s =
     s\<lparr>packet := (packet s)
        \<lparr>temp_c := (if hts_ok s then HTS_readTemperature hw else NAN),
         rh_pct := (if hts_ok s then HTS_readHumidity hw else NAN),
         pressure_hpa := (if baro_ok s then BARO_readPressure hw else NAN),
         lux := (if apds_ok s \<and> APDS_colorAvailable hw
                 then (case APDS_readColor hw of (r, g, b, a) \<Rightarrow> float_of_int a) else NAN),
         accel_g := (if lsm_ok s \<and> IMU_accelerationAvailable hw
                     then (case IMU_readAcceleration hw of (ax, ay, az) \<Rightarrow>
                             fsqrt (fadd (fadd (fmul ax ax) (fmul ay ay)) (fmul az az)))
                     else NAN),
         sound_dbfs := NAN\<rparr>\<rparr>"

definition updateAndNotify :: "uint32_t \<Rightarrow> node \<Rightarrow> node" where
  "updateAndNotify millis s =
     writeValue (s\<lparr>packet := (packet s)\<lparr>t_ms := millis, seq := seq (packet s) + 1\<rparr>\<rparr>)"

definition onBLEConnected :: "node \<Rightarrow> node" where
  "onBLEConnected s = s\<lparr>LED_BUILTIN := False\<rparr>"

definition onBLEDisconnected :: "node \<Rightarrow> node" where
  "onBLEDisconnected s = BLE_advertise (s\<lparr>LED_BUILTIN := True\<rparr>)"

text \<open>
  \<open>BLE.poll()\<close> dispatches the pending events in order: the stack records the change of
  the link (a connection ends the advertising) and calls the handler \<open>setup\<close> registered.
\<close>

fun BLE_dispatch :: "ble_event \<Rightarrow> node \<Rightarrow> node" where
  "BLE_dispatch BLEConnected s =
     onBLEConnected (s\<lparr>BLE_connected := True, BLE_advertising := False\<rparr>)"
| "BLE_dispatch BLEDisconnected s = onBLEDisconnected (s\<lparr>BLE_connected := False\<rparr>)"

fun BLE_poll :: "ble_event list \<Rightarrow> node \<Rightarrow> node" where
  "BLE_poll [] s = s"
| "BLE_poll (ev # evs) s = BLE_poll evs (BLE_dispatch ev s)"

definition loop :: "loop_env \<Rightarrow> node \<Rightarrow> node" where
  "loop env s =
     (let currentTime = millis_loop env;
          s1 = BLE_poll (poll_events env) s;
          s2 = (if sampleInterval \<le> currentTime - lastSampleTime s1
                then readSensors (sensors env) (s1\<lparr>lastSampleTime := currentTime\<rparr>)
                else s1)
      in if notifyInterval \<le> currentTime - lastNotifyTime s2
         then (let s3 = s2\<lparr>lastNotifyTime := currentTime\<rparr>
               in if BLE_connected s3 then updateAndNotify (millis_notify env) s3 else s3)
         else s2)"

text \<open>The main program calls \<open>loop\<close> forever; a run is the passes made so far.\<close>

fun run :: "loop_env list \<Rightarrow> node \<Rightarrow> node" where
  "run [] s = s"
| "run (env # envs) s = run envs (loop env s)"


subsection \<open>Reading a pass of the loop\<close>

text \<open>
  Whether the sample timer, the notify timer and the transmission of a pass fire. The
  conditions are those of \<open>loop\<close>: polling and sampling leave \<open>lastNotifyTime\<close> alone, and
  \<open>BLE.connected()\<close> is asked after \<open>BLE.poll()\<close> has dispatched the pending events.
\<close>

definition sample_due :: "loop_env \<Rightarrow> node \<Rightarrow> bool" where
  "sample_due env s \<longleftrightarrow> sampleInterval \<le> millis_loop env - lastSampleTime s"

definition notify_due :: "loop_env \<Rightarrow> node \<Rightarrow> bool" where
  "notify_due env s \<longleftrightarrow> notifyInterval \<le> millis_loop env - lastNotifyTime s"

definition transmits :: "loop_env \<Rightarrow> node \<Rightarrow> bool" where
  "transmits env s \<longleftrightarrow> notify_due env s \<and> BLE_connected (BLE_poll (poll_events env) s)"

text \<open>The records the passes of a run hand to \<open>writeValue\<close>, oldest first.\<close>

fun sent :: "loop_env list \<Rightarrow> node \<Rightarrow> uint8_t list list" where
  "sent [] s = []"
| "sent (env # envs) s =
     (if transmits env s then [wire_bytes (packet (loop env s))] else []) @ sent envs (loop env s)"

text \<open>The six measured quantities of the packet.\<close>

definition sensor_frame :: "CortexPacket \<Rightarrow> float32 \<times> float32 \<times> float32 \<times> float32 \<times> float32 \<times> float32" where
  "sensor_frame p = (temp_c p, rh_pct p, pressure_hpa p, lux p, accel_g p, sound_dbfs p)"

text \<open>Every field fed by a subsystem whose flag is false holds a NaN.\<close>

definition unavailable_nan :: "node \<Rightarrow> bool" where
  "unavailable_nan s \<longleftrightarrow>
     (\<not> hts_ok s \<longrightarrow> isnan (temp_c (packet s)) \<and> isnan (rh_pct (packet s))) \<and>
     (\<not> baro_ok s \<longrightarrow> isnan (pressure_hpa (packet s))) \<and>
     (\<not> apds_ok s \<longrightarrow> isnan (lux (packet s))) \<and>
     (\<not> lsm_ok s \<longrightarrow> isnan (accel_g (packet s)))"

subsection \<open>Concrete inputs\<close>

text \<open>
  A boot where every \<open>begin()\<close> succeeds, one where the HTS221 and the IMU fail, and
  sensor answers: 21.5 degrees, 45 percent, 1013.25 hPa, an ambient channel of 300 and an
  acceleration of \<open>(0, 0, 1)\<close>; \<open>hw_not_ready\<close> has no fresh colour or acceleration sample.
\<close>

definition boot_all_ok :: boot_env where
  "boot_all_ok =
     \<lparr>HTS_begin = True, BARO_begin = True, APDS_begin = True, IMU_begin = True,
      BLE_begin = True\<rparr>"

definition boot_hts_imu_fail :: boot_env where
  "boot_hts_imu_fail =
     \<lparr>HTS_begin = False, BARO_begin = True, APDS_begin = True, IMU_begin = False,
      BLE_begin = True\<rparr>"

definition booted :: node where
  "booted = the (setup_node boot_all_ok power_on)"

definition booted_hts_imu_fail :: node where
  "booted_hts_imu_fail = the (setup_node boot_hts_imu_fail power_on)"

definition hw_ready :: sensor_hw where
  "hw_ready =
     \<lparr>HTS_readTemperature = 0x41AC0000, HTS_readHumidity = 0x42340000,
      BARO_readPressure = 0x447D5000, APDS_colorAvailable = True,
      APDS_readColor = (120, 130, 90, 300), IMU_accelerationAvailable = True,
      IMU_readAcceleration = (0, 0, 0x3F800000)\<rparr>"

definition hw_not_ready :: sensor_hw where
  "hw_not_ready = hw_ready\<lparr>APDS_colorAvailable := False, IMU_accelerationAvailable := False\<rparr>"

definition hw_3_4_0 :: sensor_hw where
  "hw_3_4_0 = hw_ready\<lparr>IMU_readAcceleration := (0x40400000, 0x40800000, 0)\<rparr>"

text \<open>
  Passes of the loop: a sampling tick at 100 ms with nobody connected, a pass at 200 ms in
  which a central connects, and one at 200 ms with no event and no fresh sample.
\<close>

definition pass_sample :: loop_env where
  "pass_sample =
     \<lparr>millis_loop = 100, poll_events = [], sensors = hw_ready, millis_notify = 100\<rparr>"

definition pass_connect :: loop_env where
  "pass_connect =
     \<lparr>millis_loop = 200, poll_events = [BLEConnected], sensors = hw_ready, millis_notify = 201\<rparr>"

definition pass_idle :: loop_env where
  "pass_idle =
     \<lparr>millis_loop = 200, poll_events = [], sensors = hw_not_ready, millis_notify = 200\<rparr>"

section \<open>Properties\<close>

subsection \<open>Floating-point values\<close>

lemmas float_eval = float_exponent_def float_fraction_def float_sign_def isnan_def isinf_def
  iszero_def float_mant_def float_expo_def float_signbit_def float_infinity_def float_quantum_def
  round_shift_def float_significand_def float_pack_def float_round_def fmul_def fadd_def
  fadd_finite_def float_of_sum_def fsqrt_def fsqrt_scaled_def with_sticky_def float_int_def
  isqrt_def float_of_int_def NAN_def

lemma bit_length_0: "bit_length 0 = 0"
  by (simp add: bit_length.simps)

lemma bit_length_pos: "n \<noteq> 0 \<Longrightarrow> bit_length n = Suc (bit_length (n div 2))"
  by (subst bit_length.simps) simp

lemma float_of_int_300: "float_of_int 300 = 0x43960000"
  by (simp add: float_eval bit_length_0 bit_length_pos)

lemma magnitude_0_0_1:
  "fsqrt (fadd (fadd (fmul 0 0) (fmul 0 0)) (fmul 0x3F800000 0x3F800000)) = 0x3F800000"
  by (simp add: float_eval bit_length_0 bit_length_pos)

lemma magnitude_3_4_0:
  "fsqrt (fadd (fadd (fmul 0x40400000 0x40400000) (fmul 0x40800000 0x40800000)) (fmul 0 0))
     = 0x40A00000"
  by (simp add: float_eval bit_length_0 bit_length_pos)

lemma less_power_bit_length: "n < 2 ^ bit_length n"
proof (induction n rule: bit_length.induct)
  case (1 n)
  show ?case
  proof (cases "n = 0")
    case True
    then show ?thesis by (simp add: bit_length_0)
  next
    case False
    with 1 have "n div 2 < 2 ^ bit_length (n div 2)" by simp
    then have "n < 2 * 2 ^ bit_length (n div 2)" by linarith
    with False show ?thesis by (simp add: bit_length_pos)
  qed
qed

lemma isqrt_bits_bounds:
  "r * r \<le> n \<Longrightarrow> n < (r + 2 ^ k) * (r + 2 ^ k) \<Longrightarrow>
     isqrt_bits n k r * isqrt_bits n k r \<le> n
     \<and> n < (isqrt_bits n k r + 1) * (isqrt_bits n k r + 1)"
proof (induction k arbitrary: r)
  case 0
  then show ?case by simp
next
  case (Suc k)
  show ?case
  proof (cases "(r + 2 ^ k) * (r + 2 ^ k) \<le> n")
    case True
    from Suc.prems(2) have "n < (r + 2 ^ k + 2 ^ k) * (r + 2 ^ k + 2 ^ k)"
      by (simp add: mult_2 add.assoc)
    from Suc.IH [OF True this] True show ?thesis by simp
  next
    case False
    then have "n < (r + 2 ^ k) * (r + 2 ^ k)" by simp
    from Suc.IH [OF Suc.prems(1) this] False show ?thesis by simp
  qed
qed

lemma isqrt_bounds: "isqrt n * isqrt n \<le> n \<and> n < (isqrt n + 1) * (isqrt n + 1)"
proof -
  have "n < 2 ^ bit_length n" by (rule less_power_bit_length)
  also have "(2::nat) ^ bit_length n \<le> 2 ^ bit_length n * 2 ^ bit_length n" by simp
  finally have "n < (0 + 2 ^ bit_length n) * (0 + 2 ^ bit_length n)" by simp
  with isqrt_bits_bounds [of 0 n "bit_length n"] show ?thesis
    by (simp add: isqrt_def)
qed

lemma float_examples:
  "fsqrt 0x40000000 = 0x3FB504F3"
  "fmul 0x3DCCCCCD 0x3DCCCCCD = 0x3C23D70B"
  "fadd 0x3DCCCCCD 0x3E4CCCCD = 0x3E99999A"
  "fadd 0x3F800000 0xBF800000 = 0"
  "fmul 0x7F7FFFFF 0x40000000 = 0x7F800000"
  "fsqrt 0xBF800000 = NAN"
  "float_of_int 16777217 = 0x4B800000"
  "float_of_int (- 1) = 0xBF800000"
  by (simp_all add: float_eval bit_length_0 bit_length_pos)

lemma isnan_NAN: "isnan NAN"
  by (simp add: isnan_def NAN_def float_exponent_def float_fraction_def)

lemma not_isnan_zero: "\<not> isnan 0"
  by (simp add: isnan_def float_exponent_def)

subsection \<open>The layout of a record\<close>

lemma length_le16: "length (le16 w) = 2"
  by (simp add: le16_def)

lemma length_le32: "length (le32 w) = 4"
  by (simp add: le32_def)

lemma length_char4_bytes: "length (char4_bytes m) = 4"
  by (cases m) (simp add: char4_bytes_def)

lemma length_wire_bytes: "length (wire_bytes p) = 36"
  by (simp add: wire_bytes_def length_le16 length_le32 length_char4_bytes)

lemma wire_bytes_nth_4: "wire_bytes p ! 4 = node_id p"
  by (simp add: wire_bytes_def nth_append length_char4_bytes)

lemma wire_bytes_nth_5: "wire_bytes p ! 5 = reserved p"
  by (simp add: wire_bytes_def nth_append length_char4_bytes)

lemma wire_bytes_nth_6: "wire_bytes p ! 6 = ucast (seq p)"
  by (simp add: wire_bytes_def nth_append length_char4_bytes le16_def)

lemma wire_bytes_nth_7: "wire_bytes p ! 7 = ucast (drop_bit 8 (seq p))"
  by (simp add: wire_bytes_def nth_append length_char4_bytes le16_def)

lemma rd16_bytes:
  "ucast (ucast w :: uint8_t) OR push_bit 8 (ucast (ucast (drop_bit 8 w) :: uint8_t))
     = (w :: uint16_t)"
  by (rule bit_word_eqI) (auto simp add: bit_simps)

lemma rec_seq_wire_bytes: "rec_seq (wire_bytes p) = seq p"
  by (simp add: rec_seq_def rd16_def wire_bytes_nth_6 wire_bytes_nth_7 rd16_bytes)

lemma rec_node_id_wire_bytes: "rec_node_id (wire_bytes p) = node_id p"
  by (simp add: rec_node_id_def wire_bytes_nth_4)

lemma rec_reserved_wire_bytes: "rec_reserved (wire_bytes p) = reserved p"
  by (simp add: rec_reserved_def wire_bytes_nth_5)

lemma rec_magic_wire_bytes: "rec_magic (wire_bytes p) = char4_bytes (magic p)"
  by (simp add: rec_magic_def wire_bytes_def length_char4_bytes)

lemma wire_bytes_floats:
  "drop 12 (wire_bytes p) =
     le32 (temp_c p) @ le32 (rh_pct p) @ le32 (pressure_hpa p)
     @ le32 (lux p) @ le32 (accel_g p) @ le32 (sound_dbfs p)"
  by (simp add: wire_bytes_def length_char4_bytes length_le16 length_le32)

subsection \<open>What each operation leaves alone\<close>

lemma BLE_dispatch_keeps:
  "packet (BLE_dispatch ev s) = packet s"
  "hts_ok (BLE_dispatch ev s) = hts_ok s"
  "baro_ok (BLE_dispatch ev s) = baro_ok s"
  "apds_ok (BLE_dispatch ev s) = apds_ok s"
  "lsm_ok (BLE_dispatch ev s) = lsm_ok s"
  "lastSampleTime (BLE_dispatch ev s) = lastSampleTime s"
  "lastNotifyTime (BLE_dispatch ev s) = lastNotifyTime s"
  "cortexCharacteristic (BLE_dispatch ev s) = cortexCharacteristic s"
  "written (BLE_dispatch ev s) = written s"
  by (cases ev; simp add: onBLEConnected_def onBLEDisconnected_def BLE_advertise_def)+

lemma BLE_poll_keeps:
  "packet (BLE_poll evs s) = packet s"
  "hts_ok (BLE_poll evs s) = hts_ok s"
  "baro_ok (BLE_poll evs s) = baro_ok s"
  "apds_ok (BLE_poll evs s) = apds_ok s"
  "lsm_ok (BLE_poll evs s) = lsm_ok s"
  "lastSampleTime (BLE_poll evs s) = lastSampleTime s"
  "lastNotifyTime (BLE_poll evs s) = lastNotifyTime s"
  "cortexCharacteristic (BLE_poll evs s) = cortexCharacteristic s"
  "written (BLE_poll evs s) = written s"
  by (induction evs arbitrary: s; simp add: BLE_dispatch_keeps)+

lemma readSensors_keeps:
  "hts_ok (readSensors hw s) = hts_ok s"
  "baro_ok (readSensors hw s) = baro_ok s"
  "apds_ok (readSensors hw s) = apds_ok s"
  "lsm_ok (readSensors hw s) = lsm_ok s"
  "lastSampleTime (readSensors hw s) = lastSampleTime s"
  "lastNotifyTime (readSensors hw s) = lastNotifyTime s"
  "BLE_connected (readSensors hw s) = BLE_connected s"
  "BLE_advertising (readSensors hw s) = BLE_advertising s"
  "cortexCharacteristic (readSensors hw s) = cortexCharacteristic s"
  "written (readSensors hw s) = written s"
  "LED_BUILTIN (readSensors hw s) = LED_BUILTIN s"
  "magic (packet (readSensors hw s)) = magic (packet s)"
  "node_id (packet (readSensors hw s)) = node_id (packet s)"
  "reserved (packet (readSensors hw s)) = reserved (packet s)"
  "seq (packet (readSensors hw s)) = seq (packet s)"
  "t_ms (packet (readSensors hw s)) = t_ms (packet s)"
  by (simp_all add: readSensors_def)

lemma updateAndNotify_keeps:
  "hts_ok (updateAndNotify t s) = hts_ok s"
  "baro_ok (updateAndNotify t s) = baro_ok s"
  "apds_ok (updateAndNotify t s) = apds_ok s"
  "lsm_ok (updateAndNotify t s) = lsm_ok s"
  "lastSampleTime (updateAndNotify t s) = lastSampleTime s"
  "lastNotifyTime (updateAndNotify t s) = lastNotifyTime s"
  "BLE_connected (updateAndNotify t s) = BLE_connected s"
  "BLE_advertising (updateAndNotify t s) = BLE_advertising s"
  "LED_BUILTIN (updateAndNotify t s) = LED_BUILTIN s"
  "magic (packet (updateAndNotify t s)) = magic (packet s)"
  "node_id (packet (updateAndNotify t s)) = node_id (packet s)"
  "reserved (packet (updateAndNotify t s)) = reserved (packet s)"
  "temp_c (packet (updateAndNotify t s)) = temp_c (packet s)"
  "rh_pct (packet (updateAndNotify t s)) = rh_pct (packet s)"
  "pressure_hpa (packet (updateAndNotify t s)) = pressure_hpa (packet s)"
  "lux (packet (updateAndNotify t s)) = lux (packet s)"
  "accel_g (packet (updateAndNotify t s)) = accel_g (packet s)"
  "sound_dbfs (packet (updateAndNotify t s)) = sound_dbfs (packet s)"
  by (simp_all add: updateAndNotify_def writeValue_def)

lemma updateAndNotify_seq: "seq (packet (updateAndNotify t s)) = seq (packet s) + 1"
  by (simp add: updateAndNotify_def writeValue_def)

lemma updateAndNotify_written:
  "written (updateAndNotify t s) = written s @ [wire_bytes (packet (updateAndNotify t s))]"
  by (simp add: updateAndNotify_def writeValue_def)

text \<open>What one pass of \<open>loop\<close> does, by the two timers and the link.\<close>

lemma loop_cases:
  "loop env s =
     (let s1 = BLE_poll (poll_events env) s;
          s2 = (if sample_due env s
                then readSensors (sensors env) (s1\<lparr>lastSampleTime := millis_loop env\<rparr>) else s1)
      in if transmits env s
         then updateAndNotify (millis_notify env) (s2\<lparr>lastNotifyTime := millis_loop env\<rparr>)
         else if notify_due env s then s2\<lparr>lastNotifyTime := millis_loop env\<rparr> else s2)"
  by (simp add: loop_def Let_def sample_due_def notify_due_def transmits_def
      BLE_poll_keeps readSensors_keeps)

lemma loop_flags:
  "hts_ok (loop env s) = hts_ok s"
  "baro_ok (loop env s) = baro_ok s"
  "apds_ok (loop env s) = apds_ok s"
  "lsm_ok (loop env s) = lsm_ok s"
  by (simp_all add: loop_cases Let_def BLE_poll_keeps readSensors_keeps updateAndNotify_keeps)

lemma loop_header:
  "magic (packet (loop env s)) = magic (packet s)"
  "node_id (packet (loop env s)) = node_id (packet s)"
  "reserved (packet (loop env s)) = reserved (packet s)"
  by (simp_all add: loop_cases Let_def BLE_poll_keeps readSensors_keeps updateAndNotify_keeps)

lemma loop_seq:
  "seq (packet (loop env s)) = (if transmits env s then seq (packet s) + 1 else seq (packet s))"
  by (simp add: loop_cases Let_def BLE_poll_keeps readSensors_keeps updateAndNotify_seq)

lemma loop_written:
  "written (loop env s) =
     (if transmits env s then written s @ [wire_bytes (packet (loop env s))] else written s)"
  by (simp add: loop_cases Let_def BLE_poll_keeps readSensors_keeps updateAndNotify_written)

lemma loop_characteristic:
  "\<not> transmits env s \<Longrightarrow> cortexCharacteristic (loop env s) = cortexCharacteristic s"
  by (simp add: loop_cases Let_def BLE_poll_keeps readSensors_keeps)

subsection \<open>Runs\<close>

lemma run_append: "run (xs @ ys) s = run ys (run xs s)"
  by (induction xs arbitrary: s) simp_all

lemma BLE_poll_append: "BLE_poll (xs @ ys) s = BLE_poll ys (BLE_poll xs s)"
  by (induction xs arbitrary: s) simp_all

lemma run_flags:
  "hts_ok (run envs s) = hts_ok s"
  "baro_ok (run envs s) = baro_ok s"
  "apds_ok (run envs s) = apds_ok s"
  "lsm_ok (run envs s) = lsm_ok s"
  by (induction envs arbitrary: s; simp add: loop_flags)+

lemma run_header:
  "magic (packet (run envs s)) = magic (packet s)"
  "node_id (packet (run envs s)) = node_id (packet s)"
  "reserved (packet (run envs s)) = reserved (packet s)"
  by (induction envs arbitrary: s; simp add: loop_header)+

lemma run_written: "written (run envs s) = written s @ sent envs s"
  by (induction envs arbitrary: s) (simp_all add: loop_written)

lemma run_seq: "seq (packet (run envs s)) = seq (packet s) + of_nat (length (sent envs s))"
  by (induction envs arbitrary: s) (simp_all add: loop_seq)

lemma sent_seq:
  "i < length (sent envs s) \<Longrightarrow> rec_seq (sent envs s ! i) = seq (packet s) + of_nat (i + 1)"
proof (induction envs arbitrary: s i)
  case Nil
  then show ?case by simp
next
  case (Cons env envs)
  show ?case
  proof (cases "transmits env s")
    case True
    note tr = this
    show ?thesis
    proof (cases i)
      case 0
      with tr show ?thesis by (simp add: rec_seq_wire_bytes loop_seq)
    next
      case (Suc j)
      with Cons.prems tr have "j < length (sent envs (loop env s))" by simp
      from Cons.IH [OF this] Suc tr show ?thesis by (simp add: loop_seq)
    qed
  next
    case False
    with Cons.prems have "i < length (sent envs (loop env s))" by simp
    from Cons.IH [OF this] False show ?thesis by (simp add: loop_seq)
  qed
qed

lemma sent_header:
  "r \<in> set (sent envs s) \<Longrightarrow>
     rec_magic r = char4_bytes (magic (packet s)) \<and> rec_node_id r = node_id (packet s)
     \<and> rec_reserved r = reserved (packet s) \<and> length r = 36"
  by (induction envs arbitrary: s)
    (auto simp add: loop_header rec_magic_wire_bytes rec_node_id_wire_bytes
      rec_reserved_wire_bytes length_wire_bytes split: if_splits)

lemma setupSensors_flags:
  "hts_ok (setupSensors be s) = (HTS_begin be \<or> hts_ok s)"
  "baro_ok (setupSensors be s) = (BARO_begin be \<or> baro_ok s)"
  "apds_ok (setupSensors be s) = (APDS_begin be \<or> apds_ok s)"
  "lsm_ok (setupSensors be s) = (IMU_begin be \<or> lsm_ok s)"
  by (simp_all add: setupSensors_def Let_def)

lemma setupSensors_keeps:
  "packet (setupSensors be s) = packet s"
  "written (setupSensors be s) = written s"
  "BLE_connected (setupSensors be s) = BLE_connected s"
  by (simp_all add: setupSensors_def Let_def)

lemma setup_node_Some:
  assumes "setup_node be power_on = Some s"
  shows "hts_ok s = HTS_begin be" "baro_ok s = BARO_begin be" "apds_ok s = APDS_begin be"
    "lsm_ok s = IMU_begin be"
    "packet s = packet_zero\<lparr>magic := (CHR ''C'', CHR ''T'', CHR ''X'', CHR ''1''), node_id := NODE_ID\<rparr>"
    "written s = [wire_bytes (packet s)]" "cortexCharacteristic s = wire_bytes (packet s)"
    "BLE_advertising s" "\<not> BLE_connected s" "LED_BUILTIN s"
    "lastSampleTime s = 0" "lastNotifyTime s = 0"
  using assms
  by (auto simp add: setup_node_def Let_def setupSensors_flags setupSensors_keeps writeValue_def
      BLE_advertise_def power_on_def packet_zero_def setupSensors_def split: if_splits)

lemma setup_node_sensor_frame:
  "setup_node be power_on = Some s0 \<Longrightarrow> sensor_frame (packet s0) = (0, 0, 0, 0, 0, 0)"
  by (simp add: setup_node_Some(5) packet_zero_def sensor_frame_def)

lemma setup_node_total: "BLE_begin be \<Longrightarrow> \<exists>s. setup_node be power_on = Some s"
  by (simp add: setup_node_def Let_def)

lemma readSensors_unavailable_nan: "unavailable_nan (readSensors hw s)"
  by (simp add: unavailable_nan_def readSensors_def isnan_NAN)

lemma loop_sensor_frame:
  "sensor_frame (packet (loop env s)) =
     (if sample_due env s then sensor_frame (packet (readSensors (sensors env) s))
      else sensor_frame (packet s))"
  by (simp add: loop_cases Let_def sensor_frame_def updateAndNotify_keeps BLE_poll_keeps)
    (simp add: readSensors_def BLE_poll_keeps)

lemma unavailable_nan_frame:
  "unavailable_nan s \<longleftrightarrow>
     (case sensor_frame (packet s) of (t, h, p, l, a, d) \<Rightarrow>
        (\<not> hts_ok s \<longrightarrow> isnan t \<and> isnan h) \<and> (\<not> baro_ok s \<longrightarrow> isnan p)
        \<and> (\<not> apds_ok s \<longrightarrow> isnan l) \<and> (\<not> lsm_ok s \<longrightarrow> isnan a))"
  by (simp add: unavailable_nan_def sensor_frame_def)

lemma loop_unavailable_nan:
  "sample_due env s \<or> unavailable_nan s \<Longrightarrow> unavailable_nan (loop env s)"
  using readSensors_unavailable_nan [of "sensors env" s]
  by (auto simp add: unavailable_nan_frame loop_sensor_frame loop_flags readSensors_keeps)

lemma run_unavailable_nan: "unavailable_nan s \<Longrightarrow> unavailable_nan (run envs s)"
  by (induction envs arbitrary: s) (simp_all add: loop_unavailable_nan)

subsection \<open>The concrete boot\<close>

lemma booted_Some: "setup_node boot_all_ok power_on = Some booted"
  by (simp add: booted_def setup_node_def boot_all_ok_def Let_def)

lemma booted_hts_imu_fail_Some:
  "setup_node boot_hts_imu_fail power_on = Some booted_hts_imu_fail"
  by (simp add: booted_hts_imu_fail_def setup_node_def boot_hts_imu_fail_def Let_def)

lemma booted_fields:
  "seq (packet booted) = 0" "\<not> BLE_connected booted" "lastSampleTime booted = 0"
  "lastNotifyTime booted = 0" "hts_ok booted" "baro_ok booted" "apds_ok booted" "lsm_ok booted"
  "written booted = [wire_bytes (packet booted)]"
  using setup_node_Some [OF booted_Some] by (simp_all add: packet_zero_def boot_all_ok_def)

lemma transmits_pass_connect: "transmits pass_connect booted"
  by (simp add: transmits_def notify_due_def pass_connect_def notifyInterval_def booted_fields
      onBLEConnected_def)

section \<open>The statements of the specification\<close>

text \<open>
  C1. As stated: every record handed to the transport is 44 bytes long, the last 8 of them
  zero padding at offset 36. The struct has no padding member: a record handed to
  \<open>writeValue\<close> is the 36 bytes of the six header and six float fields, and nothing
  follows offset 36.
\<close>

theorem transmitted_record_is_36_bytes:
  "length (last (written (updateAndNotify t s))) = 36
   \<and> length (cortexCharacteristic (updateAndNotify t s)) = 36
   \<and> drop 36 (last (written (updateAndNotify t s))) = []
   \<and> length (last (written (updateAndNotify t s))) \<noteq> 44
   \<and> length (written (run [pass_connect] booted) ! 1) = 36"
  by (simp add: updateAndNotify_def writeValue_def length_wire_bytes loop_written
      transmits_pass_connect booted_fields)

text \<open>
  C2, as stated: the N-th record transmitted while connected carries \<open>seq = (N - 1) mod 65536\<close>,
  the counter being copied before it is incremented. Counterexample: after a boot in which
  everything starts, a central connects and the notify timer fires at 200 ms; the first
  record transmitted carries \<open>seq = 1\<close>.
\<close>

theorem first_notification_seq_counterexample:
  "transmits pass_connect booted
   \<and> written (run [pass_connect] booted)
       = [wire_bytes (packet booted), wire_bytes (packet (run [pass_connect] booted))]
   \<and> rec_seq (written (run [pass_connect] booted) ! 1) = 1
   \<and> unat (rec_seq (written (run [pass_connect] booted) ! 1)) \<noteq> (1 - 1) mod 65536"
  by (simp add: transmits_pass_connect loop_written loop_seq booted_fields rec_seq_wire_bytes)

text \<open>
  C2, amended: \<open>updateAndNotify\<close> increments the counter first and hands the record over
  afterwards, so in every run from boot the N-th record written after the initial value of
  \<open>setup\<close> (the initial value is \<open>written ! 0\<close>) carries \<open>seq = N mod 65536\<close>: the first
  carries 1 and the 65536th carries 0.
\<close>

theorem nth_notification_seq:
  assumes "setup_node be power_on = Some s0"
    and "1 \<le> N" and "N < length (written (run envs s0))"
  shows "unat (rec_seq (written (run envs s0) ! N)) = N mod 65536
    \<and> rec_seq (last (written (updateAndNotify t s))) = seq (packet s) + 1"
proof -
  from assms(2) obtain i where N: "N = Suc i"
    by (cases N) simp_all
  have w: "written (run envs s0) = wire_bytes (packet s0) # sent envs s0"
    by (simp add: run_written setup_node_Some(6) [OF assms(1)])
  with assms(3) N have i: "i < length (sent envs s0)"
    by simp
  have "seq (packet s0) = 0"
    by (simp add: setup_node_Some(5) [OF assms(1)] packet_zero_def)
  with sent_seq [OF i] have "rec_seq (sent envs s0 ! i) = of_nat (i + 1)"
    by (simp only: add_0)
  moreover have "written (run envs s0) ! N = sent envs s0 ! i"
    by (simp add: w N)
  moreover have "unat (of_nat (i + 1) :: uint16_t) = (i + 1) mod 65536"
    by (simp only: unat_of_nat) simp
  ultimately have "unat (rec_seq (written (run envs s0) ! N)) = N mod 65536"
    by (simp only: N Suc_eq_plus1)
  moreover have "rec_seq (last (written (updateAndNotify t s))) = seq (packet s) + 1"
    by (simp add: updateAndNotify_written rec_seq_wire_bytes updateAndNotify_seq)
  ultimately show ?thesis by simp
qed

theorem nth_notification_seq_witness:
  "setup_node boot_all_ok power_on = Some booted
   \<and> (1::nat) \<le> 1 \<and> 1 < length (written (run [pass_connect] booted))
   \<and> unat (rec_seq (written (run [pass_connect] booted) ! 1)) = 1 mod 65536
   \<and> rec_seq (last (written (updateAndNotify 201 booted))) = seq (packet booted) + 1"
proof -
  have len: "1 < length (written (run [pass_connect] booted))"
    by (simp add: loop_written transmits_pass_connect booted_fields)
  from nth_notification_seq [OF booted_Some _ len, of 201 booted] booted_Some len
  show ?thesis by simp
qed

text \<open>
  C3. As stated: at boot, before the first sampling tick, the six sensor fields hold NaN.
  The firmware promises NaN for a sensor that failed to start and for the sound level, and
  \<open>readSensors\<close> stores it, but \<open>setup\<close> leaves the six fields of the zero-initialised
  global as they are and hands them to \<open>writeValue\<close>. After a boot in which the HTS221
  and the IMU fail, the record \<open>setup\<close> writes carries 0.0 in all six fields (its last
  24 bytes are zero), none of them a NaN, and it is still the value of the characteristic
  after the first sampling tick, which stores the NaN in the packet, while nobody is
  connected.
\<close>

theorem boot_record_sends_zero_for_failed_sensors:
  "setup_node boot_hts_imu_fail power_on = Some booted_hts_imu_fail
   \<and> \<not> hts_ok booted_hts_imu_fail \<and> \<not> lsm_ok booted_hts_imu_fail
   \<and> sensor_frame (packet booted_hts_imu_fail) = (0, 0, 0, 0, 0, 0)
   \<and> \<not> isnan (temp_c (packet booted_hts_imu_fail))
   \<and> \<not> isnan (rh_pct (packet booted_hts_imu_fail))
   \<and> \<not> isnan (accel_g (packet booted_hts_imu_fail))
   \<and> \<not> isnan (sound_dbfs (packet booted_hts_imu_fail))
   \<and> written booted_hts_imu_fail = [wire_bytes (packet booted_hts_imu_fail)]
   \<and> cortexCharacteristic booted_hts_imu_fail = wire_bytes (packet booted_hts_imu_fail)
   \<and> drop 12 (cortexCharacteristic booted_hts_imu_fail) = replicate 24 0
   \<and> isnan (temp_c (packet (loop pass_sample booted_hts_imu_fail)))
   \<and> isnan (sound_dbfs (packet (loop pass_sample booted_hts_imu_fail)))
   \<and> cortexCharacteristic (loop pass_sample booted_hts_imu_fail)
       = cortexCharacteristic booted_hts_imu_fail"
proof -
  note b = booted_hts_imu_fail_Some
  note f = setup_node_Some [OF b]
  have fl: "\<not> hts_ok booted_hts_imu_fail" "\<not> lsm_ok booted_hts_imu_fail"
    by (simp_all add: f boot_hts_imu_fail_def)
  have z: "sensor_frame (packet booted_hts_imu_fail) = (0, 0, 0, 0, 0, 0)"
    by (rule setup_node_sensor_frame [OF b])
  then have n: "\<not> isnan (temp_c (packet booted_hts_imu_fail))"
    "\<not> isnan (rh_pct (packet booted_hts_imu_fail))"
    "\<not> isnan (accel_g (packet booted_hts_imu_fail))"
    "\<not> isnan (sound_dbfs (packet booted_hts_imu_fail))"
    by (simp_all add: sensor_frame_def not_isnan_zero)
  have r: "replicate 24 (0 :: uint8_t)
      = [0, 0, 0, 0, 0, 0, 0, 0, 0, 0, 0, 0, 0, 0, 0, 0, 0, 0, 0, 0, 0, 0, 0, 0]"
    by (simp add: eval_nat_numeral)
  from z have bytes: "drop 12 (cortexCharacteristic booted_hts_imu_fail) = replicate 24 0"
    by (simp add: f(7) wire_bytes_floats sensor_frame_def le32_def r)
  have d: "sample_due pass_sample booted_hts_imu_fail"
    by (simp add: sample_due_def pass_sample_def sampleInterval_def f)
  have t: "\<not> transmits pass_sample booted_hts_imu_fail"
    by (simp add: transmits_def pass_sample_def f)
  have "unavailable_nan (loop pass_sample booted_hts_imu_fail)"
    using d by (simp add: loop_unavailable_nan)
  with fl have n1: "isnan (temp_c (packet (loop pass_sample booted_hts_imu_fail)))"
    by (simp add: unavailable_nan_def loop_flags)
  have "sensor_frame (packet (loop pass_sample booted_hts_imu_fail))
      = sensor_frame (packet (readSensors (sensors pass_sample) booted_hts_imu_fail))"
    using d by (simp add: loop_sensor_frame)
  then have n2: "isnan (sound_dbfs (packet (loop pass_sample booted_hts_imu_fail)))"
    by (simp add: sensor_frame_def readSensors_def isnan_NAN)
  from b fl z n f(6,7) bytes n1 n2 loop_characteristic [OF t] show ?thesis
    by simp
qed

text \<open>
  C4. A subsystem whose \<open>begin()\<close> failed at boot keeps its flag false for the whole run,
  and from the first sampling tick on, after every pass of the loop, every field it feeds
  holds a NaN, whatever the hardware answers.
\<close>

theorem unavailable_fields_stay_nan:
  assumes "setup_node be power_on = Some s0"
    and "sample_due env (run envs s0)"
    and "s = run envs' (loop env (run envs s0))"
  shows "hts_ok s = HTS_begin be \<and> baro_ok s = BARO_begin be
    \<and> apds_ok s = APDS_begin be \<and> lsm_ok s = IMU_begin be
    \<and> (\<not> HTS_begin be \<longrightarrow> isnan (temp_c (packet s)) \<and> isnan (rh_pct (packet s)))
    \<and> (\<not> BARO_begin be \<longrightarrow> isnan (pressure_hpa (packet s)))
    \<and> (\<not> APDS_begin be \<longrightarrow> isnan (lux (packet s)))
    \<and> (\<not> IMU_begin be \<longrightarrow> isnan (accel_g (packet s)))"
proof -
  have flags: "hts_ok s = HTS_begin be" "baro_ok s = BARO_begin be"
    "apds_ok s = APDS_begin be" "lsm_ok s = IMU_begin be"
    by (simp_all add: assms(3) run_flags loop_flags setup_node_Some(1-4) [OF assms(1)])
  have "unavailable_nan (loop env (run envs s0))"
    using assms(2) by (simp add: loop_unavailable_nan)
  then have "unavailable_nan s"
    by (simp add: assms(3) run_unavailable_nan)
  with flags show ?thesis
    by (simp add: unavailable_nan_def)
qed

theorem unavailable_fields_stay_nan_witness:
  "setup_node boot_hts_imu_fail power_on = Some (the (setup_node boot_hts_imu_fail power_on))
   \<and> sample_due pass_sample (run [] (the (setup_node boot_hts_imu_fail power_on)))
   \<and> \<not> hts_ok (run [pass_connect] (loop pass_sample (the (setup_node boot_hts_imu_fail power_on))))
   \<and> isnan (temp_c (packet
        (run [pass_connect] (loop pass_sample (the (setup_node boot_hts_imu_fail power_on))))))
   \<and> isnan (rh_pct (packet
        (run [pass_connect] (loop pass_sample (the (setup_node boot_hts_imu_fail power_on))))))
   \<and> isnan (accel_g (packet
        (run [pass_connect] (loop pass_sample (the (setup_node boot_hts_imu_fail power_on))))))"
proof -
  have b: "setup_node boot_hts_imu_fail power_on
      = Some (the (setup_node boot_hts_imu_fail power_on))"
    by (simp add: setup_node_def boot_hts_imu_fail_def Let_def)
  have d: "sample_due pass_sample (run [] (the (setup_node boot_hts_imu_fail power_on)))"
    by (simp add: sample_due_def pass_sample_def sampleInterval_def setup_node_Some(11) [OF b])
  from unavailable_fields_stay_nan [OF b d refl, of "[pass_connect]"] b d
  show ?thesis by (simp add: boot_hts_imu_fail_def)
qed

text \<open>
  C5. On a sampling tick \<open>accel_g\<close> becomes \<open>sqrt(ax*ax + ay*ay + az*az)\<close>, computed in
  \<open>float\<close>, when the IMU started and has a fresh sample, and NaN otherwise; \<open>sound_dbfs\<close>
  becomes NaN on every tick. An acceleration of \<open>(0, 0, 1)\<close> gives 1.0 (\<open>0x3F800000\<close>) and
  \<open>(3, 4, 0)\<close> gives 5.0 (\<open>0x40A00000\<close>). The expression is evaluated as it is written:
  three products, two sums and the root, each rounded once.
\<close>

theorem accel_magnitude_and_sound:
  assumes "sample_due env s"
  shows "accel_g (packet (loop env s)) =
      (if lsm_ok s \<and> IMU_accelerationAvailable (sensors env)
       then (case IMU_readAcceleration (sensors env) of (ax, ay, az) \<Rightarrow>
               fsqrt (fadd (fadd (fmul ax ax) (fmul ay ay)) (fmul az az)))
       else NAN)
    \<and> sound_dbfs (packet (loop env s)) = NAN \<and> isnan NAN
    \<and> (lsm_ok s \<and> IMU_accelerationAvailable (sensors env)
        \<and> IMU_readAcceleration (sensors env) = (0, 0, 0x3F800000)
        \<longrightarrow> accel_g (packet (loop env s)) = 0x3F800000)
    \<and> (lsm_ok s \<and> IMU_accelerationAvailable (sensors env)
        \<and> IMU_readAcceleration (sensors env) = (0x40400000, 0x40800000, 0)
        \<longrightarrow> accel_g (packet (loop env s)) = 0x40A00000)"
proof -
  have "sensor_frame (packet (loop env s)) = sensor_frame (packet (readSensors (sensors env) s))"
    using assms by (simp add: loop_sensor_frame)
  then have a: "accel_g (packet (loop env s)) = accel_g (packet (readSensors (sensors env) s))"
    and d: "sound_dbfs (packet (loop env s)) = sound_dbfs (packet (readSensors (sensors env) s))"
    by (simp_all add: sensor_frame_def)
  have g: "accel_g (packet (readSensors (sensors env) s)) =
      (if lsm_ok s \<and> IMU_accelerationAvailable (sensors env)
       then (case IMU_readAcceleration (sensors env) of (ax, ay, az) \<Rightarrow>
               fsqrt (fadd (fadd (fmul ax ax) (fmul ay ay)) (fmul az az)))
       else NAN)"
    by (simp add: readSensors_def)
  have n: "sound_dbfs (packet (readSensors (sensors env) s)) = NAN"
    by (simp add: readSensors_def)
  show ?thesis
    unfolding a d g n
    by (simp add: isnan_NAN magnitude_0_0_1 magnitude_3_4_0)
qed

theorem accel_magnitude_and_sound_witness:
  "sample_due pass_sample booted
   \<and> lsm_ok booted \<and> IMU_accelerationAvailable (sensors pass_sample)
   \<and> IMU_readAcceleration (sensors pass_sample) = (0, 0, 0x3F800000)
   \<and> accel_g (packet (loop pass_sample booted)) = 0x3F800000
   \<and> sound_dbfs (packet (loop pass_sample booted)) = NAN
   \<and> sample_due (pass_sample\<lparr>sensors := hw_3_4_0\<rparr>) booted
   \<and> IMU_readAcceleration (sensors (pass_sample\<lparr>sensors := hw_3_4_0\<rparr>))
       = (0x40400000, 0x40800000, 0)
   \<and> accel_g (packet (loop (pass_sample\<lparr>sensors := hw_3_4_0\<rparr>) booted)) = 0x40A00000"
proof -
  have d: "sample_due pass_sample booted" "sample_due (pass_sample\<lparr>sensors := hw_3_4_0\<rparr>) booted"
    by (simp_all add: sample_due_def pass_sample_def sampleInterval_def booted_fields)
  have h1: "lsm_ok booted" "IMU_accelerationAvailable (sensors pass_sample)"
    "IMU_readAcceleration (sensors pass_sample) = (0, 0, 0x3F800000)"
    by (simp_all add: booted_fields pass_sample_def hw_ready_def)
  have h2: "IMU_accelerationAvailable (sensors (pass_sample\<lparr>sensors := hw_3_4_0\<rparr>))"
    "IMU_readAcceleration (sensors (pass_sample\<lparr>sensors := hw_3_4_0\<rparr>))
       = (0x40400000, 0x40800000, 0)"
    by (simp_all add: hw_ready_def hw_3_4_0_def)
  from accel_magnitude_and_sound [OF d(1)] h1
  have r1: "accel_g (packet (loop pass_sample booted)) = 0x3F800000"
    "sound_dbfs (packet (loop pass_sample booted)) = NAN"
    by blast+
  from accel_magnitude_and_sound [OF d(2)] h1(1) h2
  have r2: "accel_g (packet (loop (pass_sample\<lparr>sensors := hw_3_4_0\<rparr>) booted)) = 0x40A00000"
    by blast
  from d h1 h2 r1 r2 show ?thesis by blast
qed

text \<open>
  C6. A pass of the loop in which no central is attached when the notify timer is looked
  at hands nothing to the transport: the log of written records, the characteristic and
  the sequence counter are as before, and the pass ends normally. The sampling tick does
  not look at the link: when the sample timer fires, the six sensor fields are those
  \<open>readSensors\<close> computes, connected or not.
\<close>

theorem no_transmission_unless_connected:
  "(lifecycle_of (BLE_poll (poll_events env) s) \<noteq> Connected \<longrightarrow>
      written (loop env s) = written s
      \<and> cortexCharacteristic (loop env s) = cortexCharacteristic s
      \<and> seq (packet (loop env s)) = seq (packet s))
   \<and> (written (loop env s) \<noteq> written s \<longrightarrow>
        notify_due env s \<and> lifecycle_of (BLE_poll (poll_events env) s) = Connected)
   \<and> (sample_due env s \<longrightarrow>
        sensor_frame (packet (loop env s)) = sensor_frame (packet (readSensors (sensors env) s)))"
proof -
  have c: "lifecycle_of (BLE_poll (poll_events env) s) = Connected
      \<longleftrightarrow> BLE_connected (BLE_poll (poll_events env) s)"
    by (simp add: lifecycle_of_def)
  have "\<not> transmits env s \<Longrightarrow> cortexCharacteristic (loop env s) = cortexCharacteristic s"
    by (simp add: loop_cases Let_def BLE_poll_keeps readSensors_keeps)
  then show ?thesis
    by (auto simp add: c loop_written loop_seq loop_sensor_frame transmits_def)
qed

theorem no_transmission_unless_connected_witness:
  "lifecycle_of (BLE_poll (poll_events pass_idle) booted) \<noteq> Connected
   \<and> notify_due pass_idle booted
   \<and> written (loop pass_idle booted) = written booted
   \<and> cortexCharacteristic (loop pass_idle booted) = cortexCharacteristic booted
   \<and> seq (packet (loop pass_idle booted)) = seq (packet booted)
   \<and> sample_due pass_idle booted
   \<and> sensor_frame (packet (loop pass_idle booted))
       = (0x41AC0000, 0x42340000, 0x447D5000, NAN, NAN, NAN)"
proof -
  have n: "lifecycle_of (BLE_poll (poll_events pass_idle) booted) \<noteq> Connected"
    by (simp add: pass_idle_def lifecycle_of_def booted_fields)
  have d: "notify_due pass_idle booted" "sample_due pass_idle booted"
    by (simp_all add: notify_due_def sample_due_def pass_idle_def sampleInterval_def
        notifyInterval_def booted_fields)
  have f: "sensor_frame (packet (readSensors (sensors pass_idle) booted))
      = (0x41AC0000, 0x42340000, 0x447D5000, NAN, NAN, NAN)"
    by (simp add: sensor_frame_def readSensors_def booted_fields pass_idle_def hw_not_ready_def
        hw_ready_def)
  from no_transmission_unless_connected [of pass_idle booted] n d f
  show ?thesis by simp
qed

text \<open>
  C7. The handler of a disconnection calls \<open>BLE.advertise()\<close> with no condition: after a
  disconnection event, from any state and in particular from \<open>Connected\<close>, the device is in
  \<open>Advertising\<close>, also when the event is the last of several dispatched by one
  \<open>BLE.poll()\<close>. The pass goes on as usual and a later connection leads to \<open>Connected\<close>
  again.
\<close>

theorem disconnect_rearms_advertising:
  "BLE_advertising (onBLEDisconnected s)
   \<and> lifecycle_of (BLE_dispatch BLEDisconnected s) = Advertising
   \<and> lifecycle_of (BLE_poll (evs @ [BLEDisconnected]) s) = Advertising
   \<and> lifecycle_of (loop (env\<lparr>poll_events := evs @ [BLEDisconnected]\<rparr>) s) = Advertising
   \<and> lifecycle_of (BLE_dispatch BLEConnected (BLE_dispatch BLEDisconnected s)) = Connected"
proof -
  have d: "lifecycle_of (BLE_dispatch BLEDisconnected s') = Advertising" for s'
    by (simp add: lifecycle_of_def onBLEDisconnected_def BLE_advertise_def)
  have l: "lifecycle_of (loop env' s') = lifecycle_of (BLE_poll (poll_events env') s')" for env' s'
    by (simp add: lifecycle_of_def loop_cases Let_def readSensors_keeps updateAndNotify_keeps)
  show ?thesis
    by (simp add: l BLE_poll_append d)
      (simp add: lifecycle_of_def onBLEDisconnected_def onBLEConnected_def BLE_advertise_def)
qed

theorem disconnect_rearms_advertising_witness:
  "lifecycle_of (BLE_dispatch BLEConnected booted) = Connected
   \<and> lifecycle_of (BLE_dispatch BLEDisconnected (BLE_dispatch BLEConnected booted)) = Advertising
   \<and> BLE_advertising (BLE_dispatch BLEDisconnected (BLE_dispatch BLEConnected booted))"
  using disconnect_rearms_advertising [of "BLE_dispatch BLEConnected booted" "[]"]
  by (simp add: lifecycle_of_def onBLEConnected_def onBLEDisconnected_def BLE_advertise_def)

text \<open>
  C8. The counter is 0 at boot. No pass of the loop decrements or resets it: a pass that
  transmits adds 1 in 16-bit arithmetic (65535 + 1 = 0) and any other pass leaves it, as do
  the sampling and the event handlers. In every run from boot, each record written
  carries the \<open>seq\<close> of the record written before it plus 1, modulo 65536.
\<close>

theorem seq_steps_by_one:
  assumes "setup_node be power_on = Some s0"
    and "i + 1 < length (written (run envs s0))"
  shows "seq (packet s0) = 0
    \<and> unat (rec_seq (written (run envs s0) ! (i + 1)))
        = (unat (rec_seq (written (run envs s0) ! i)) + 1) mod 65536
    \<and> seq (packet (loop env s)) = (if transmits env s then seq (packet s) + 1 else seq (packet s))
    \<and> seq (packet (readSensors hw s)) = seq (packet s)
    \<and> seq (packet (BLE_poll evs s)) = seq (packet s)
    \<and> seq (packet (updateAndNotify t s)) = seq (packet s) + 1
    \<and> (65535 :: uint16_t) + 1 = 0"
proof -
  have z: "seq (packet s0) = 0"
    by (simp add: setup_node_Some(5) [OF assms(1)] packet_zero_def)
  have w: "written (run envs s0) = wire_bytes (packet s0) # sent envs s0"
    by (simp add: run_written setup_node_Some(6) [OF assms(1)])
  have n: "rec_seq (written (run envs s0) ! j) = of_nat j"
    if "j < length (written (run envs s0))" for j
  proof (cases j)
    case 0
    then show ?thesis by (simp add: w rec_seq_wire_bytes z)
  next
    case (Suc k)
    with that w have "k < length (sent envs s0)" by simp
    from sent_seq [OF this] show ?thesis by (simp add: w Suc z)
  qed
  from assms(2) have "i < length (written (run envs s0))"
    by simp
  then have "rec_seq (written (run envs s0) ! i) = of_nat i"
    by (rule n)
  moreover have "rec_seq (written (run envs s0) ! (i + 1)) = of_nat i + 1"
    using n [OF assms(2)] by simp
  moreover have "unat (x + 1) = (unat x + 1) mod 65536" for x :: uint16_t
    by (simp add: unat_word_ariths)
  ultimately have "unat (rec_seq (written (run envs s0) ! (i + 1)))
      = (unat (rec_seq (written (run envs s0) ! i)) + 1) mod 65536"
    by simp
  then show ?thesis
    by (simp add: z loop_seq readSensors_keeps BLE_poll_keeps updateAndNotify_seq)
qed

theorem seq_steps_by_one_witness:
  "setup_node boot_all_ok power_on = Some booted
   \<and> 0 + 1 < length (written (run [pass_connect] booted))
   \<and> seq (packet booted) = 0
   \<and> unat (rec_seq (written (run [pass_connect] booted) ! (0 + 1)))
       = (unat (rec_seq (written (run [pass_connect] booted) ! 0)) + 1) mod 65536
   \<and> seq (packet (loop pass_connect booted)) = 1"
proof -
  have len: "0 + 1 < length (written (run [pass_connect] booted))"
    by (simp add: loop_written transmits_pass_connect booted_fields)
  from seq_steps_by_one [OF booted_Some len, of pass_connect booted] booted_Some len
  show ?thesis by (simp add: transmits_pass_connect booted_fields)
qed

text \<open>
  C9. \<open>setup\<close> sets \<open>magic\<close> to \<open>"CTX1"\<close>, \<open>node_id\<close> to \<open>NODE_ID\<close> (1 in \<open>config.h\<close>,
  within 0 to 254) and \<open>reserved\<close> to 0, and neither the sampling nor the transmission
  nor the event handlers touch them: in every run from boot, every record written carries
  these three values.
\<close>

theorem header_fields_constant:
  assumes "setup_node be power_on = Some s0"
    and "r \<in> set (written (run envs s0))"
  shows "rec_magic r = map of_char ''CTX1'' \<and> rec_node_id r = NODE_ID \<and> rec_reserved r = 0
    \<and> unat NODE_ID \<le> 254
    \<and> magic (packet (run envs s0)) = (CHR ''C'', CHR ''T'', CHR ''X'', CHR ''1'')
    \<and> node_id (packet (run envs s0)) = NODE_ID \<and> reserved (packet (run envs s0)) = 0
    \<and> magic (packet (readSensors hw s)) = magic (packet s)
    \<and> node_id (packet (readSensors hw s)) = node_id (packet s)
    \<and> reserved (packet (readSensors hw s)) = reserved (packet s)
    \<and> magic (packet (updateAndNotify t s)) = magic (packet s)
    \<and> node_id (packet (updateAndNotify t s)) = node_id (packet s)
    \<and> reserved (packet (updateAndNotify t s)) = reserved (packet s)"
proof -
  have h: "magic (packet s0) = (CHR ''C'', CHR ''T'', CHR ''X'', CHR ''1'')"
    "node_id (packet s0) = NODE_ID" "reserved (packet s0) = 0"
    by (simp_all add: setup_node_Some(5) [OF assms(1)] packet_zero_def)
  have m: "char4_bytes (CHR ''C'', CHR ''T'', CHR ''X'', CHR ''1'') = map of_char ''CTX1''"
    by (simp add: char4_bytes_def)
  from assms(2) have "r = wire_bytes (packet s0) \<or> r \<in> set (sent envs s0)"
    by (simp add: run_written setup_node_Some(6) [OF assms(1)])
  then have "rec_magic r = map of_char ''CTX1'' \<and> rec_node_id r = NODE_ID \<and> rec_reserved r = 0"
  proof
    assume "r = wire_bytes (packet s0)"
    then show ?thesis
      by (simp only: rec_magic_wire_bytes rec_node_id_wire_bytes rec_reserved_wire_bytes h m)
  next
    assume "r \<in> set (sent envs s0)"
    from sent_header [OF this] show ?thesis
      by (simp only: h m)
  qed
  moreover have "unat NODE_ID \<le> 254"
    by (simp add: NODE_ID_def)
  ultimately show ?thesis
    by (simp add: run_header h readSensors_keeps updateAndNotify_keeps)
qed

theorem header_fields_constant_witness:
  "setup_node boot_all_ok power_on = Some booted
   \<and> wire_bytes (packet (loop pass_connect booted)) \<in> set (written (run [pass_connect] booted))
   \<and> rec_magic (wire_bytes (packet (loop pass_connect booted))) = [0x43, 0x54, 0x58, 0x31]
   \<and> rec_node_id (wire_bytes (packet (loop pass_connect booted))) = 1
   \<and> rec_reserved (wire_bytes (packet (loop pass_connect booted))) = 0"
proof -
  have m: "wire_bytes (packet (loop pass_connect booted)) \<in> set (written (run [pass_connect] booted))"
    by (simp add: loop_written transmits_pass_connect)
  from header_fields_constant [OF booted_Some m] booted_Some m
  show ?thesis by (simp add: NODE_ID_def)
qed

text \<open>
  C10. When the APDS9960 started but has no fresh colour sample, a sampling tick stores
  NaN in \<open>lux\<close>, whatever the field held; likewise for the IMU and \<open>accel_g\<close>. The flags stay
  true. So a field that held a reading after one tick can hold NaN after the next.
\<close>

theorem not_ready_overwrites_with_nan:
  "(apds_ok s \<and> \<not> APDS_colorAvailable hw \<longrightarrow>
      lux (packet (readSensors hw s)) = NAN \<and> apds_ok (readSensors hw s))
   \<and> (lsm_ok s \<and> \<not> IMU_accelerationAvailable hw \<longrightarrow>
      accel_g (packet (readSensors hw s)) = NAN \<and> lsm_ok (readSensors hw s))
   \<and> (sample_due env s \<and> apds_ok s \<and> \<not> APDS_colorAvailable (sensors env) \<longrightarrow>
      lux (packet (loop env s)) = NAN \<and> apds_ok (loop env s))
   \<and> (sample_due env s \<and> lsm_ok s \<and> \<not> IMU_accelerationAvailable (sensors env) \<longrightarrow>
      accel_g (packet (loop env s)) = NAN \<and> lsm_ok (loop env s))
   \<and> isnan NAN"
proof -
  have "sample_due env s \<Longrightarrow>
      lux (packet (loop env s)) = lux (packet (readSensors (sensors env) s))
      \<and> accel_g (packet (loop env s)) = accel_g (packet (readSensors (sensors env) s))"
    using loop_sensor_frame [of env s] by (simp add: sensor_frame_def)
  then show ?thesis
    by (auto simp add: loop_flags isnan_NAN) (simp_all add: readSensors_def)
qed

theorem not_ready_overwrites_with_nan_witness:
  "apds_ok (loop pass_sample booted) \<and> lsm_ok (loop pass_sample booted)
   \<and> lux (packet (loop pass_sample booted)) = 0x43960000
   \<and> \<not> isnan (lux (packet (loop pass_sample booted)))
   \<and> accel_g (packet (loop pass_sample booted)) = 0x3F800000
   \<and> \<not> isnan (accel_g (packet (loop pass_sample booted)))
   \<and> sample_due pass_idle (loop pass_sample booted)
   \<and> \<not> APDS_colorAvailable (sensors pass_idle) \<and> \<not> IMU_accelerationAvailable (sensors pass_idle)
   \<and> isnan (lux (packet (loop pass_idle (loop pass_sample booted))))
   \<and> isnan (accel_g (packet (loop pass_idle (loop pass_sample booted))))
   \<and> apds_ok (loop pass_idle (loop pass_sample booted))
   \<and> lsm_ok (loop pass_idle (loop pass_sample booted))"
proof -
  let ?s1 = "loop pass_sample booted"
  have d0: "sample_due pass_sample booted"
    by (simp add: sample_due_def pass_sample_def sampleInterval_def booted_fields)
  have f1: "sensor_frame (packet ?s1) = sensor_frame (packet (readSensors (sensors pass_sample) booted))"
    using d0 by (simp add: loop_sensor_frame)
  have f2: "sensor_frame (packet (readSensors (sensors pass_sample) booted))
      = (0x41AC0000, 0x42340000, 0x447D5000, 0x43960000, 0x3F800000, NAN)"
    by (simp add: sensor_frame_def readSensors_def booted_fields pass_sample_def hw_ready_def
        float_of_int_300 magnitude_0_0_1)
  from f1 f2 have v: "lux (packet ?s1) = 0x43960000" "accel_g (packet ?s1) = 0x3F800000"
    by (simp_all add: sensor_frame_def)
  have nn: "\<not> isnan (0x43960000 :: float32)" "\<not> isnan (0x3F800000 :: float32)"
    by (simp_all add: isnan_def float_exponent_def float_fraction_def)
  have ok: "apds_ok ?s1" "lsm_ok ?s1"
    by (simp_all add: loop_flags booted_fields)
  have "lastSampleTime ?s1 = 100"
    using d0 by (simp add: loop_cases Let_def updateAndNotify_keeps readSensors_keeps)
      (simp add: pass_sample_def)
  then have d1: "sample_due pass_idle ?s1"
    by (simp add: sample_due_def pass_idle_def sampleInterval_def)
  have nr: "\<not> APDS_colorAvailable (sensors pass_idle)"
    "\<not> IMU_accelerationAvailable (sensors pass_idle)"
    by (simp_all add: pass_idle_def hw_not_ready_def)
  from not_ready_overwrites_with_nan [of ?s1 "sensors pass_idle" pass_idle] d1 ok nr
  have r: "lux (packet (loop pass_idle ?s1)) = NAN" "accel_g (packet (loop pass_idle ?s1)) = NAN"
    "apds_ok (loop pass_idle ?s1)" "lsm_ok (loop pass_idle ?s1)"
    by blast+
  from r(1,2) have "isnan (lux (packet (loop pass_idle ?s1)))"
    "isnan (accel_g (packet (loop pass_idle ?s1)))"
    by (simp_all add: isnan_NAN)
  with v nn ok d1 nr r(3,4) show ?thesis by simp
qed

end
